theory Spec2Isabelle
  imports Main "HOL-Library.Word"
begin

section \<open>Errors\<close>

text \<open>
  Modelled from the spec: the package \<^verbatim>\<open>pkg/errors\<close> (\<^verbatim>\<open>errors.New\<close>,
  \<^verbatim>\<open>errors.Wrap\<close>) is not among the sources. The spec says of the error taxonomy:
  "Each wraps an optional underlying cause for diagnostics but callers branch only on
  kind." An error is therefore the text of its kind together with an optional cause;
  \<^verbatim>\<open>errors.New(text)\<close> has no cause, and \<^verbatim>\<open>errors.Wrap(wrapper, err)\<close> is the error
  of the wrapper's kind whose cause is \<^verbatim>\<open>err\<close>. A Go \<^verbatim>\<open>error\<close> that may be \<^verbatim>\<open>nil\<close>
  is an \<open>error option\<close>, \<open>None\<close> being \<^verbatim>\<open>nil\<close>.
\<close>

datatype error = Error (Msg: string) (Err: "error option")

definition New :: "string \<Rightarrow> error" where
  "New text = Error text None"

definition Wrap :: "error \<Rightarrow> error \<Rightarrow> error" where
  "Wrap wrapper err = Error (Msg wrapper) (Some err)"

text \<open>Two errors are of the same kind when their own texts agree, whatever they wrap.\<close>

definition sameKind :: "error \<Rightarrow> error \<Rightarrow> bool" where
  "sameKind e k \<longleftrightarrow> Msg e = Msg k"

text \<open>The error values of \<^verbatim>\<open>users/service.go\<close> that the modelled operations use.\<close>

definition ErrMalformedEntity :: error where
  "ErrMalformedEntity = New ''malformed entity specification''"

definition ErrUnauthorizedAccess :: error where
  "ErrUnauthorizedAccess = New ''missing or invalid credentials provided''"

definition ErrAuthorization :: error where
  "ErrAuthorization = New ''failed to perform authorization over the entity''"

definition ErrNotFound :: error where
  "ErrNotFound = New ''non-existent entity''"

definition ErrUserNotFound :: error where
  "ErrUserNotFound = New ''non-existent user''"

definition ErrCreateUser :: error where
  "ErrCreateUser = New ''failed to create user''"

definition ErrPasswordFormat :: error where
  "ErrPasswordFormat = New ''password does not meet the requirements''"

text \<open>
  Modelled from the spec: \<^verbatim>\<open>auth.ErrAuthorization\<close> of package \<^verbatim>\<open>auth\<close> is not
  among the sources. The spec has a single kind \<^verbatim>\<open>Authorization\<close> ("backend policy check
  failed"), so it is given the text that \<^verbatim>\<open>users/service.go\<close> declares for that kind.
\<close>

definition auth_ErrAuthorization :: error where
  "auth_ErrAuthorization = New ''failed to perform authorization over the entity''"

section \<open>The in-memory PolicyAgent\<close>

text \<open>
  \<^verbatim>\<open>auth.PolicyReq\<close> is declared outside the sources; the two backends read its fields
  \<^verbatim>\<open>Subject\<close>, \<^verbatim>\<open>Object\<close> and \<^verbatim>\<open>Relation\<close>.
\<close>

record PolicyReq =
  Subject :: string
  Object :: string
  Relation :: string

record MockSubjectSet =
  Object :: string
  Relation :: string

text \<open>
  \<^verbatim>\<open>authzDB map[string][]MockSubjectSet\<close>. A Go map may be \<^verbatim>\<open>nil\<close> (\<open>None\<close>):
  reading a \<^verbatim>\<open>nil\<close> map, or a key that is absent, gives the zero value, here the empty
  slice; writing to a \<^verbatim>\<open>nil\<close> map panics.
\<close>

record policyAgentMock =
  authzDB :: "(string \<rightharpoonup> MockSubjectSet list) option"

definition NewKetoMock :: "(string \<rightharpoonup> MockSubjectSet list) option \<Rightarrow> policyAgentMock" where
  "NewKetoMock db = \<lparr>authzDB = db\<rparr>"

definition index_map :: "(string \<rightharpoonup> MockSubjectSet list) option \<Rightarrow> string \<Rightarrow> MockSubjectSet list" where
  "index_map db key =
     (case db of
        None \<Rightarrow> []
      | Some m \<Rightarrow> (case m key of None \<Rightarrow> [] | Some ssList \<Rightarrow> ssList))"

text \<open>The \<^verbatim>\<open>for _, ss := range ssList\<close> loop of \<^verbatim>\<open>CheckPolicy\<close>, with the return after it.\<close>

fun range_ssList :: "MockSubjectSet list \<Rightarrow> PolicyReq \<Rightarrow> error option" where
  "range_ssList [] pr = Some auth_ErrAuthorization"
| "range_ssList (ss # ssList) pr =
     (if MockSubjectSet.Object ss = PolicyReq.Object pr
         \<and> MockSubjectSet.Relation ss = PolicyReq.Relation pr
      then None
      else range_ssList ssList pr)"

definition policyAgentMock_CheckPolicy :: "policyAgentMock \<Rightarrow> PolicyReq \<Rightarrow> error option" where
  "policyAgentMock_CheckPolicy k pr = range_ssList (index_map (authzDB k) (Subject pr)) pr"

text \<open>
  \<^verbatim>\<open>AddPolicy\<close> mutates the map of the receiver: the model returns the error and the
  updated agent. The outer \<open>None\<close> is the panic of an assignment to an entry of a
  \<^verbatim>\<open>nil\<close> map.
\<close>

definition policyAgentMock_AddPolicy ::
  "policyAgentMock \<Rightarrow> PolicyReq \<Rightarrow> (error option \<times> policyAgentMock) option" where
  "policyAgentMock_AddPolicy k pr =
     (case authzDB k of
        None \<Rightarrow> None
      | Some m \<Rightarrow>
          Some (None,
                k\<lparr>authzDB := Some (m(Subject pr \<mapsto>
                     index_map (Some m) (Subject pr)
                       @ [\<lparr>MockSubjectSet.Object = PolicyReq.Object pr,
                            MockSubjectSet.Relation = PolicyReq.Relation pr\<rparr>]))\<rparr>))"

text \<open>
  A sequence of \<^verbatim>\<open>AddPolicy\<close> calls on one agent: the errors the calls returned, in
  order, and the agent after the last call; \<open>None\<close> when a call panicked.
\<close>

fun AddPolicy_calls ::
  "policyAgentMock \<Rightarrow> PolicyReq list \<Rightarrow> (error option list \<times> policyAgentMock) option" where
  "AddPolicy_calls k [] = Some ([], k)"
| "AddPolicy_calls k (pr # prs) =
     (case policyAgentMock_AddPolicy k pr of
        None \<Rightarrow> None
      | Some (err, k') \<Rightarrow>
          (case AddPolicy_calls k' prs of
             None \<Rightarrow> None
           | Some (errs, k'') \<Rightarrow> Some (err # errs, k'')))"

text \<open>The agent of the counterexample: built on a map that already holds one tuple.\<close>

definition seededMock :: policyAgentMock where
  "seededMock =
     NewKetoMock (Some [''admin'' \<mapsto>
       [\<lparr>MockSubjectSet.Object = ''authorities'', MockSubjectSet.Relation = ''member''\<rparr>]])"

definition emptyMock :: policyAgentMock where
  "emptyMock = NewKetoMock (Some Map.empty)"

text \<open>Two grants, for the concrete runs of the in-memory agent.\<close>

definition grantAlice :: PolicyReq where
  "grantAlice = \<lparr>Subject = ''alice'', PolicyReq.Object = ''users'', PolicyReq.Relation = ''member''\<rparr>"

definition grantBob :: PolicyReq where
  "grantBob = \<lparr>Subject = ''bob'', PolicyReq.Object = ''users'', PolicyReq.Relation = ''member''\<rparr>"

section \<open>The remote PolicyAgent\<close>

text \<open>
  The request of \<^verbatim>\<open>TransactRelationTuples\<close>, as \<^verbatim>\<open>AddPolicy\<close> of the Keto backend
  builds it. The message types of the ACL service are declared outside the sources; the
  fields are those the source sets.
\<close>

definition ketoNamespace :: string where
  "ketoNamespace = ''members''"

datatype RelationTupleDelta_Action = RelationTupleDelta_INSERT | RelationTupleDelta_DELETE

record RelationTuple =
  Namespace :: string
  Object :: string
  Relation :: string
  Subject_Id :: string

record RelationTupleDelta =
  Action :: RelationTupleDelta_Action
  RelationTuple :: RelationTuple

record TransactRelationTuplesRequest =
  RelationTupleDeltas :: "RelationTupleDelta list"

text \<open>
  The writer client is a remote service: a call takes the state of the world \<open>'w\<close> and
  returns the error of the transaction (\<open>None\<close> for \<^verbatim>\<open>nil\<close>) and the new state. The
  response itself is dropped by the source (\<^verbatim>\<open>_, err := trt(...)\<close>).
\<close>

record 'w policyAgent =
  writer_TransactRelationTuples :: "TransactRelationTuplesRequest \<Rightarrow> 'w \<Rightarrow> error option \<times> 'w"

definition policyAgent_AddPolicy :: "'w policyAgent \<Rightarrow> PolicyReq \<Rightarrow> 'w \<Rightarrow> error option \<times> 'w" where
  "policyAgent_AddPolicy c pr w =
     (let trt = writer_TransactRelationTuples c;
          (err, w') = trt \<lparr>RelationTupleDeltas =
                        [\<lparr>Action = RelationTupleDelta_INSERT,
                          RelationTuple =
                            \<lparr>Namespace = ketoNamespace,
                             RelationTuple.Object = PolicyReq.Object pr,
                             RelationTuple.Relation = PolicyReq.Relation pr,
                             Subject_Id = PolicyReq.Subject pr\<rparr>\<rparr>]\<rparr> w
      in (err, w'))"

text \<open>A writer whose transaction is refused by the transport, for the counterexample.\<close>

definition unreachableWriter :: "unit policyAgent" where
  "unreachableWriter =
     \<lparr>writer_TransactRelationTuples = (\<lambda>req w. (Some (New ''connection refused''), w))\<rparr>"

text \<open>A writer that accepts every transaction and counts them.\<close>

definition acceptingWriter :: "nat policyAgent" where
  "acceptingWriter = \<lparr>writer_TransactRelationTuples = (\<lambda>req w. (None, Suc w))\<rparr>"

section \<open>The users service: data\<close>

definition memberRelationKey :: string where
  "memberRelationKey = ''member''"

definition authoritiesObjKey :: string where
  "authoritiesObjKey = ''authorities''"

definition usersObjKey :: string where
  "usersObjKey = ''users''"

text \<open>
  \<^verbatim>\<open>User\<close> and \<^verbatim>\<open>Metadata\<close> are declared outside the sources; the service reads and
  writes the fields \<^verbatim>\<open>ID\<close>, \<^verbatim>\<open>Email\<close>, \<^verbatim>\<open>Password\<close> and \<^verbatim>\<open>Metadata\<close>. The metadata
  is a map from keys to values of any type \<open>'v\<close>, \<open>None\<close> being the \<^verbatim>\<open>nil\<close> map. A slice
  is a list, \<open>None\<close> being the \<^verbatim>\<open>nil\<close> slice; both \<^verbatim>\<open>nil\<close> and the empty slice have
  length 0.
\<close>

type_synonym 'v Metadata = "(string \<rightharpoonup> 'v) option"

type_synonym 'a slice = "'a list option"

definition len :: "'a slice \<Rightarrow> nat" where
  "len xs = (case xs of None \<Rightarrow> 0 | Some l \<Rightarrow> length l)"

record 'v User =
  ID :: string
  Email :: string
  Password :: string
  Metadata :: "'v Metadata"

text \<open>\<^verbatim>\<open>User{}\<close>, the zero value.\<close>

definition User_zero :: "'v User" where
  "User_zero = \<lparr>ID = '''', Email = '''', Password = '''', Metadata = None\<rparr>"

record PageMetadata =
  Total :: "64 word"
  Offset :: "64 word"
  Limit :: "64 word"
  Name :: string

record 'v UserPage = PageMetadata +
  Users :: "'v User slice"

text \<open>\<^verbatim>\<open>UserPage{}\<close>, the zero value.\<close>

definition UserPage_zero :: "'v UserPage" where
  "UserPage_zero = \<lparr>Total = 0, PageMetadata.Offset = 0, PageMetadata.Limit = 0, Name = '''',
                     Users = None\<rparr>"

record userIdentity =
  id' :: string
  email :: string

definition userIdentity_zero :: userIdentity where
  "userIdentity_zero = \<lparr>id' = '''', email = ''''\<rparr>"

text \<open>
  The messages of the identity service (\<^verbatim>\<open>mainflux.AuthorizeReq\<close> and the others) are
  declared outside the sources; the fields are those the service sets and reads. A
  response with one field is that field: \<^verbatim>\<open>AuthorizeRes\<close> and \<^verbatim>\<open>AddPolicyRes\<close> are their
  \<^verbatim>\<open>Authorized\<close>, \<^verbatim>\<open>MembersRes\<close> is its \<^verbatim>\<open>Members\<close>, the issued \<^verbatim>\<open>Token\<close> is its
  \<^verbatim>\<open>Value\<close>.
\<close>

record AuthorizeReq =
  Sub :: string
  Obj :: string
  Act :: string

record AddPolicyReq =
  Sub :: string
  Obj :: string
  Act :: string

record MembersReq =
  Token :: string
  GroupID :: string
  Offset :: "64 word"
  Limit :: "64 word"
  Type :: string

record IssueReq =
  Id :: string
  Email :: string
  Type :: "32 word"

record UserIdentity =
  Id :: string
  Email :: string

text \<open>
  The collaborators of \<^verbatim>\<open>usersService\<close>: the repository \<^verbatim>\<open>users\<close>, the \<^verbatim>\<open>hasher\<close>, the
  client \<^verbatim>\<open>auth\<close> of the identity service and the \<^verbatim>\<open>idProvider\<close> are interfaces
  implemented elsewhere. Each of their methods is a parameter: it takes the state of the
  world \<open>'w\<close> (database, remote service, random source) and returns its result with the
  new state; a result \<^verbatim>\<open>(x, err)\<close> of which the service reads \<^verbatim>\<open>x\<close> only when
  \<^verbatim>\<open>err == nil\<close> is \<open>Inl err\<close> or \<open>Inr x\<close>, and the result of \<^verbatim>\<open>RetrieveAll\<close>, which
  the service hands on as it is, is the pair. \<^verbatim>\<open>passRegex\<close> is a compiled pattern and
  \<^verbatim>\<open>User.Validate\<close> a method declared outside the sources: both are pure. The key
  type \<^verbatim>\<open>auth.UserKey\<close> is a constant of package \<^verbatim>\<open>auth\<close>, whose value the sources do
  not give: it is a parameter too.
\<close>

record ('w, 'v) usersService =
  users_Save :: "'v User \<Rightarrow> 'w \<Rightarrow> (error + string) \<times> 'w"
  users_RetrieveByID :: "string \<Rightarrow> 'w \<Rightarrow> (error + 'v User) \<times> 'w"
  users_RetrieveByEmail :: "string \<Rightarrow> 'w \<Rightarrow> (error + 'v User) \<times> 'w"
  users_RetrieveAll ::
    "64 word \<Rightarrow> 64 word \<Rightarrow> string slice \<Rightarrow> string \<Rightarrow> 'v Metadata \<Rightarrow> 'w
       \<Rightarrow> ('v UserPage \<times> error option) \<times> 'w"
  users_UpdateUser :: "'v User \<Rightarrow> 'w \<Rightarrow> error option \<times> 'w"
  hasher_Hash :: "string \<Rightarrow> 'w \<Rightarrow> (error + string) \<times> 'w"
  hasher_Compare :: "string \<Rightarrow> string \<Rightarrow> 'w \<Rightarrow> error option \<times> 'w"
  auth_Issue :: "IssueReq \<Rightarrow> 'w \<Rightarrow> (error + string) \<times> 'w"
  auth_Identify :: "string \<Rightarrow> 'w \<Rightarrow> (error + UserIdentity) \<times> 'w"
  auth_Authorize :: "AuthorizeReq \<Rightarrow> 'w \<Rightarrow> (error + bool) \<times> 'w"
  auth_AddPolicy :: "AddPolicyReq \<Rightarrow> 'w \<Rightarrow> (error + bool) \<times> 'w"
  auth_Members :: "MembersReq \<Rightarrow> 'w \<Rightarrow> (error + string slice) \<times> 'w"
  idProvider_ID :: "'w \<Rightarrow> (error + string) \<times> 'w"
  passRegex_MatchString :: "string \<Rightarrow> bool"
  auth_UserKey :: "32 word"
  user_Validate :: "'v User \<Rightarrow> error option"

text \<open>
  The calls the service makes to its collaborators are recorded, each with its arguments
  and what it returned, in the order they are made. The record is not part of the source:
  it is what the properties about "is never invoked" and "precedes" speak of.
\<close>

datatype 'v call =
    Call_Authorize AuthorizeReq "error + bool"
  | Call_Identify string "error + UserIdentity"
  | Call_AddPolicy AddPolicyReq "error + bool"
  | Call_Members MembersReq "error + string slice"
  | Call_Issue IssueReq "error + string"
  | Call_ID "error + string"
  | Call_Hash string "error + string"
  | Call_Compare string string "error option"
  | Call_Save "'v User" "error + string"
  | Call_RetrieveByID string "error + 'v User"
  | Call_RetrieveByEmail string "error + 'v User"
  | Call_RetrieveAll "64 word" "64 word" "string slice" string "'v Metadata" "'v UserPage \<times> error option"
  | Call_UpdateUser "'v User" "error option"

record ('w, 'v) state =
  world :: 'w
  calls :: "'v call list"

definition extern ::
  "('a \<Rightarrow> 'v call) \<Rightarrow> ('w \<Rightarrow> 'a \<times> 'w) \<Rightarrow> ('w, 'v) state \<Rightarrow> 'a \<times> ('w, 'v) state" where
  "extern ev f s =
     (case f (world s) of (r, w') \<Rightarrow> (r, \<lparr>world = w', calls = calls s @ [ev r]\<rparr>))"

definition start :: "'w \<Rightarrow> ('w, 'v) state" where
  "start w = \<lparr>world = w, calls = []\<rparr>"

section \<open>The users service: operations\<close>

subsection \<open>Auth helpers\<close>

definition issue ::
  "('w, 'v) usersService \<Rightarrow> string \<Rightarrow> string \<Rightarrow> 32 word \<Rightarrow> ('w, 'v) state
     \<Rightarrow> (string \<times> error option) \<times> ('w, 'v) state" where
  "issue svc uid mail keyType s =
     (let req = \<lparr>IssueReq.Id = uid, IssueReq.Email = mail, IssueReq.Type = keyType\<rparr> in
      case extern (Call_Issue req) (auth_Issue svc req) s of
        (Inl err, s') \<Rightarrow> (('''', Some (Wrap ErrUserNotFound err)), s')
      | (Inr key, s') \<Rightarrow> ((key, None), s'))"

definition identify ::
  "('w, 'v) usersService \<Rightarrow> string \<Rightarrow> ('w, 'v) state
     \<Rightarrow> (userIdentity \<times> error option) \<times> ('w, 'v) state" where
  "identify svc token s =
     (case extern (Call_Identify token) (auth_Identify svc token) s of
        (Inl err, s') \<Rightarrow> ((userIdentity_zero, Some (Wrap ErrUnauthorizedAccess err)), s')
      | (Inr identity, s') \<Rightarrow>
          ((\<lparr>id' = UserIdentity.Id identity, email = UserIdentity.Email identity\<rparr>, None), s'))"

definition authorize ::
  "('w, 'v) usersService \<Rightarrow> string \<Rightarrow> string \<Rightarrow> string \<Rightarrow> ('w, 'v) state
     \<Rightarrow> error option \<times> ('w, 'v) state" where
  "authorize svc subject object relation s =
     (let req = \<lparr>AuthorizeReq.Sub = subject, AuthorizeReq.Obj = object,
                 AuthorizeReq.Act = relation\<rparr> in
      case extern (Call_Authorize req) (auth_Authorize svc req) s of
        (Inl err, s') \<Rightarrow> (Some (Wrap ErrAuthorization err), s')
      | (Inr authorized, s') \<Rightarrow>
          if \<not> authorized then (Some ErrAuthorization, s') else (None, s'))"

definition claimOwnership ::
  "('w, 'v) usersService \<Rightarrow> string \<Rightarrow> string \<Rightarrow> string \<Rightarrow> ('w, 'v) state
     \<Rightarrow> error option \<times> ('w, 'v) state" where
  "claimOwnership svc subject object relation s =
     (let req = \<lparr>AddPolicyReq.Sub = subject, AddPolicyReq.Obj = object,
                 AddPolicyReq.Act = relation\<rparr> in
      case extern (Call_AddPolicy req) (auth_AddPolicy svc req) s of
        (Inl err, s') \<Rightarrow> (Some (Wrap ErrAuthorization err), s')
      | (Inr authorized, s') \<Rightarrow>
          if \<not> authorized then (Some ErrAuthorization, s') else (None, s'))"

text \<open>
  \<^verbatim>\<open>func (svc usersService) members(ctx, token, groupID string, limit, offset uint64)\<close>:
  the parameters in the order of the source, \<^verbatim>\<open>limit\<close> before \<^verbatim>\<open>offset\<close>.
\<close>

definition members ::
  "('w, 'v) usersService \<Rightarrow> string \<Rightarrow> string \<Rightarrow> 64 word \<Rightarrow> 64 word \<Rightarrow> ('w, 'v) state
     \<Rightarrow> (string slice \<times> error option) \<times> ('w, 'v) state" where
  "members svc token groupID limit offset s =
     (let req = \<lparr>Token = token, GroupID = groupID, MembersReq.Offset = offset,
                 MembersReq.Limit = limit, MembersReq.Type = ''users''\<rparr> in
      case extern (Call_Members req) (auth_Members svc req) s of
        (Inl err, s') \<Rightarrow> ((None, Some err), s')
      | (Inr res_Members, s') \<Rightarrow> ((res_Members, None), s'))"

subsection \<open>Use cases\<close>

text \<open>
  A field that a composite literal of the source leaves out has its zero value: the
  literals of \<^verbatim>\<open>ViewProfile\<close> and \<^verbatim>\<open>UpdateUser\<close> below write it out.
\<close>

definition checkAuthz ::
  "('w, 'v) usersService \<Rightarrow> string \<Rightarrow> ('w, 'v) state \<Rightarrow> error option \<times> ('w, 'v) state" where
  "checkAuthz svc token s =
     (case authorize svc ''*'' ''user'' ''create'' s of
        (None, s1) \<Rightarrow> (None, s1)
      | (Some err0, s1) \<Rightarrow>
          if token = '''' then (Some ErrUnauthorizedAccess, s1)
          else
            (case identify svc token s1 of
               ((ir, Some err), s2) \<Rightarrow> (Some err, s2)
             | ((ir, None), s2) \<Rightarrow> authorize svc (id' ir) authoritiesObjKey memberRelationKey s2))"

definition Register ::
  "('w, 'v) usersService \<Rightarrow> string \<Rightarrow> 'v User \<Rightarrow> ('w, 'v) state
     \<Rightarrow> (string \<times> error option) \<times> ('w, 'v) state" where
  "Register svc token user s =
     (case checkAuthz svc token s of
        (Some err, s1) \<Rightarrow> (('''', Some err), s1)
      | (None, s1) \<Rightarrow>
     (case user_Validate svc user of
        Some err \<Rightarrow> (('''', Some err), s1)
      | None \<Rightarrow>
     if \<not> passRegex_MatchString svc (Password user) then (('''', Some ErrPasswordFormat), s1)
     else
     (case extern Call_ID (idProvider_ID svc) s1 of
        (Inl err, s2) \<Rightarrow> (('''', Some (Wrap ErrCreateUser err)), s2)
      | (Inr uid, s2) \<Rightarrow>
     (let user = user\<lparr>ID := uid\<rparr> in
      case claimOwnership svc (ID user) usersObjKey memberRelationKey s2 of
        (Some err, s3) \<Rightarrow> (('''', Some err), s3)
      | (None, s3) \<Rightarrow>
     (case extern (Call_Hash (Password user)) (hasher_Hash svc (Password user)) s3 of
        (Inl err, s4) \<Rightarrow> (('''', Some (Wrap ErrMalformedEntity err)), s4)
      | (Inr hash, s4) \<Rightarrow>
     (let user = user\<lparr>Password := hash\<rparr> in
      case extern (Call_Save user) (users_Save svc user) s4 of
        (Inl err, s5) \<Rightarrow> (('''', Some err), s5)
      | (Inr uid, s5) \<Rightarrow> ((uid, None), s5)))))))"

definition Login ::
  "('w, 'v) usersService \<Rightarrow> 'v User \<Rightarrow> ('w, 'v) state
     \<Rightarrow> (string \<times> error option) \<times> ('w, 'v) state" where
  "Login svc user s =
     (case extern (Call_RetrieveByEmail (User.Email user))
             (users_RetrieveByEmail svc (User.Email user)) s of
        (Inl err, s1) \<Rightarrow> (('''', Some (Wrap ErrUnauthorizedAccess err)), s1)
      | (Inr dbUser, s1) \<Rightarrow>
     (case extern (Call_Compare (Password user) (Password dbUser))
             (hasher_Compare svc (Password user) (Password dbUser)) s1 of
        (Some err, s2) \<Rightarrow> (('''', Some (Wrap ErrUnauthorizedAccess err)), s2)
      | (None, s2) \<Rightarrow> issue svc (ID dbUser) (User.Email dbUser) (auth_UserKey svc) s2))"

definition ViewUser ::
  "('w, 'v) usersService \<Rightarrow> string \<Rightarrow> string \<Rightarrow> ('w, 'v) state
     \<Rightarrow> ('v User \<times> error option) \<times> ('w, 'v) state" where
  "ViewUser svc token uid s =
     (case identify svc token s of
        ((ir, Some err), s1) \<Rightarrow> ((User_zero, Some err), s1)
      | ((ir, None), s1) \<Rightarrow>
     (case extern (Call_RetrieveByID uid) (users_RetrieveByID svc uid) s1 of
        (Inl err, s2) \<Rightarrow> ((User_zero, Some (Wrap ErrUnauthorizedAccess err)), s2)
      | (Inr dbUser, s2) \<Rightarrow>
          ((\<lparr>ID = uid, User.Email = User.Email dbUser, Password = '''',
             Metadata = Metadata dbUser\<rparr>, None), s2)))"

definition ViewProfile ::
  "('w, 'v) usersService \<Rightarrow> string \<Rightarrow> ('w, 'v) state
     \<Rightarrow> ('v User \<times> error option) \<times> ('w, 'v) state" where
  "ViewProfile svc token s =
     (case identify svc token s of
        ((ir, Some err), s1) \<Rightarrow> ((User_zero, Some err), s1)
      | ((ir, None), s1) \<Rightarrow>
     (case extern (Call_RetrieveByEmail (email ir)) (users_RetrieveByEmail svc (email ir)) s1 of
        (Inl err, s2) \<Rightarrow> ((User_zero, Some (Wrap ErrUnauthorizedAccess err)), s2)
      | (Inr dbUser, s2) \<Rightarrow>
          ((\<lparr>ID = ID dbUser, User.Email = email ir, Password = '''',
             Metadata = Metadata dbUser\<rparr>, None), s2)))"

definition UpdateUser ::
  "('w, 'v) usersService \<Rightarrow> string \<Rightarrow> 'v User \<Rightarrow> ('w, 'v) state
     \<Rightarrow> error option \<times> ('w, 'v) state" where
  "UpdateUser svc token u s =
     (case identify svc token s of
        ((ir, Some err), s1) \<Rightarrow> (Some (Wrap ErrUnauthorizedAccess err), s1)
      | ((ir, None), s1) \<Rightarrow>
     (let user = \<lparr>ID = '''', User.Email = email ir, Password = '''', Metadata = Metadata u\<rparr> in
      extern (Call_UpdateUser user) (users_UpdateUser svc user) s1))"

definition ListMembers ::
  "('w, 'v) usersService \<Rightarrow> string \<Rightarrow> string \<Rightarrow> 64 word \<Rightarrow> 64 word \<Rightarrow> 'v Metadata
     \<Rightarrow> ('w, 'v) state \<Rightarrow> ('v UserPage \<times> error option) \<times> ('w, 'v) state" where
  "ListMembers svc token groupID offset limit m s =
     (case identify svc token s of
        ((ir, Some err), s1) \<Rightarrow> ((UserPage_zero, Some err), s1)
      | ((ir, None), s1) \<Rightarrow>
     (case members svc token groupID offset limit s1 of
        ((userIDs, Some err), s2) \<Rightarrow> ((UserPage_zero, Some err), s2)
      | ((userIDs, None), s2) \<Rightarrow>
     if len userIDs = 0 then
       ((\<lparr>Total = 0, PageMetadata.Offset = offset, PageMetadata.Limit = limit, Name = '''',
          Users = Some []\<rparr>, None), s2)
     else
       extern (Call_RetrieveAll offset limit userIDs '''' m)
         (users_RetrieveAll svc offset limit userIDs '''' m) s2))"

section \<open>Predicates on the recorded calls\<close>

text \<open>
  \<open>grantRefused\<close>: a call of \<^verbatim>\<open>AddPolicy\<close> after which \<^verbatim>\<open>claimOwnership\<close> returns an
  error (the client returned an error, or the response is not authorized).
  \<open>granted uid\<close>: a call of \<^verbatim>\<open>AddPolicy\<close> that granted \<open>uid\<close> the relation
  \<^verbatim>\<open>member\<close> on the object \<^verbatim>\<open>users\<close>.
\<close>

fun is_Save :: "'v call \<Rightarrow> bool" where
  "is_Save (Call_Save u r) = True"
| "is_Save c = False"

fun is_AddPolicy :: "'v call \<Rightarrow> bool" where
  "is_AddPolicy (Call_AddPolicy req r) = True"
| "is_AddPolicy c = False"

fun grantRefused :: "'v call \<Rightarrow> bool" where
  "grantRefused (Call_AddPolicy req (Inl err)) = True"
| "grantRefused (Call_AddPolicy req (Inr authorized)) = (\<not> authorized)"
| "grantRefused c = False"

fun granted :: "string \<Rightarrow> 'v call \<Rightarrow> bool" where
  "granted uid (Call_AddPolicy req (Inr authorized)) =
     (authorized \<and> req = \<lparr>AddPolicyReq.Sub = uid, AddPolicyReq.Obj = usersObjKey,
                            AddPolicyReq.Act = memberRelationKey\<rparr>)"
| "granted uid c = False"

definition ownership :: "string \<Rightarrow> AddPolicyReq" where
  "ownership uid = \<lparr>AddPolicyReq.Sub = uid, AddPolicyReq.Obj = usersObjKey,
                     AddPolicyReq.Act = memberRelationKey\<rparr>"

text \<open>
  The calls \<^verbatim>\<open>Register\<close> makes after its authorization gate, by the step at which it
  returns: nothing; the id provider failing; the grant refused; the hasher failing; or all
  four calls, the last one being \<^verbatim>\<open>Save\<close>.
\<close>

definition Register_rest :: "'v User \<Rightarrow> string \<Rightarrow> error option \<Rightarrow> 'v call list \<Rightarrow> bool" where
  "Register_rest user uid err rest \<longleftrightarrow>
     (rest = [] \<and> err \<noteq> None \<and> uid = '''')
   \<or> (\<exists>e. rest = [Call_ID (Inl e)] \<and> err \<noteq> None \<and> uid = '''')
   \<or> (\<exists>u r. rest = [Call_ID (Inr u), Call_AddPolicy (ownership u) r]
               \<and> r \<noteq> Inr True \<and> err \<noteq> None \<and> uid = '''')
   \<or> (\<exists>u e. rest = [Call_ID (Inr u), Call_AddPolicy (ownership u) (Inr True),
                       Call_Hash (Password user) (Inl e)]
               \<and> err \<noteq> None \<and> uid = '''')
   \<or> (\<exists>u h r. rest = [Call_ID (Inr u), Call_AddPolicy (ownership u) (Inr True),
                         Call_Hash (Password user) (Inr h),
                         Call_Save (user\<lparr>ID := u, Password := h\<rparr>) r])"

section \<open>Concrete collaborators\<close>

text \<open>
  A small world for the concrete runs: one stored user, one valid token, a bootstrap
  policy that lets anyone create users, and a counter of the ids handed out.
\<close>

definition storedUser :: "string User" where
  "storedUser = \<lparr>ID = ''u1'', User.Email = ''a@x.com'', Password = ''#Str0ng!pw'',
                  Metadata = Some [''role'' \<mapsto> ''admin'']\<rparr>"

definition registrant :: "string User" where
  "registrant = \<lparr>ID = ''forged'', User.Email = ''b@x.com'', Password = ''Str0ng!pw'',
                  Metadata = None\<rparr>"

definition stubService :: "(nat, string) usersService" where
  "stubService =
     \<lparr>users_Save = (\<lambda>u w. (Inr (ID u), w)),
      users_RetrieveByID =
        (\<lambda>uid w. if uid = ''u1'' then (Inr storedUser, w) else (Inl ErrNotFound, w)),
      users_RetrieveByEmail =
        (\<lambda>mail w. if mail = ''a@x.com'' then (Inr storedUser, w) else (Inl ErrNotFound, w)),
      users_RetrieveAll = (\<lambda>offset limit ids mail m w. ((UserPage_zero, None), w)),
      users_UpdateUser = (\<lambda>u w. (None, w)),
      hasher_Hash = (\<lambda>p w. (Inr (CHR ''#'' # p), w)),
      hasher_Compare =
        (\<lambda>p h w. (if h = CHR ''#'' # p then None else Some (New ''hash mismatch''), w)),
      auth_Issue = (\<lambda>req w. (Inr (''token-of-'' @ IssueReq.Id req), w)),
      auth_Identify =
        (\<lambda>t w. if t = ''tok''
               then (Inr \<lparr>UserIdentity.Id = ''u1'', UserIdentity.Email = ''a@x.com''\<rparr>, w)
               else (Inl (New ''invalid token''), w)),
      auth_Authorize = (\<lambda>req w. (Inr (AuthorizeReq.Sub req = ''*''), w)),
      auth_AddPolicy = (\<lambda>req w. (Inr True, w)),
      auth_Members = (\<lambda>req w. (Inr (Some []), w)),
      idProvider_ID = (\<lambda>w. (Inr ''id-1'', Suc w)),
      passRegex_MatchString = (\<lambda>p. 8 \<le> length p),
      auth_UserKey = 0,
      user_Validate = (\<lambda>u. if User.Email u = '''' then Some ErrMalformedEntity else None)\<rparr>"

definition refusingService :: "(nat, string) usersService" where
  "refusingService = stubService\<lparr>auth_AddPolicy := (\<lambda>req w. (Inr False, w))\<rparr>"

definition refusedState :: "(nat, string) state" where
  "refusedState =
     \<lparr>world = 1,
      calls = [Call_Authorize \<lparr>AuthorizeReq.Sub = ''*'', AuthorizeReq.Obj = ''user'',
                               AuthorizeReq.Act = ''create''\<rparr> (Inr True),
               Call_ID (Inr ''id-1''),
               Call_AddPolicy (ownership ''id-1'') (Inr False)]\<rparr>"

definition grantedCalls :: "string call list" where
  "grantedCalls =
     [Call_Authorize \<lparr>AuthorizeReq.Sub = ''*'', AuthorizeReq.Obj = ''user'',
                      AuthorizeReq.Act = ''create''\<rparr> (Inr True),
      Call_ID (Inr ''id-1''),
      Call_AddPolicy (ownership ''id-1'') (Inr True),
      Call_Hash ''Str0ng!pw'' (Inr ''#Str0ng!pw'')]"

definition savedUser :: "string User" where
  "savedUser = \<lparr>ID = ''id-1'', User.Email = ''b@x.com'', Password = ''#Str0ng!pw'',
                 Metadata = None\<rparr>"

definition registeredState :: "(nat, string) state" where
  "registeredState =
     \<lparr>world = 1, calls = grantedCalls @ [Call_Save savedUser (Inr ''id-1'')]\<rparr>"

text \<open>Payloads, states and a service without policies, for the concrete runs.\<close>

definition unknownLogin :: "string User" where
  "unknownLogin = \<lparr>ID = '''', User.Email = ''nobody@x.com'', Password = ''Str0ng!pw'',
                    Metadata = None\<rparr>"

definition wrongPasswordLogin :: "string User" where
  "wrongPasswordLogin = \<lparr>ID = '''', User.Email = ''a@x.com'', Password = ''guess'',
                          Metadata = None\<rparr>"

definition correctLogin :: "string User" where
  "correctLogin = \<lparr>ID = '''', User.Email = ''a@x.com'', Password = ''Str0ng!pw'',
                    Metadata = None\<rparr>"

definition viewedState :: "(nat, string) state" where
  "viewedState =
     \<lparr>world = 0,
      calls = [Call_Identify ''tok''
                 (Inr \<lparr>UserIdentity.Id = ''u1'', UserIdentity.Email = ''a@x.com''\<rparr>),
               Call_RetrieveByID ''u1'' (Inr storedUser)]\<rparr>"

definition profileState :: "(nat, string) state" where
  "profileState =
     \<lparr>world = 0,
      calls = [Call_Identify ''tok''
                 (Inr \<lparr>UserIdentity.Id = ''u1'', UserIdentity.Email = ''a@x.com''\<rparr>),
               Call_RetrieveByEmail ''a@x.com'' (Inr storedUser)]\<rparr>"

definition forgedUpdate :: "string User" where
  "forgedUpdate = \<lparr>ID = ''u2'', User.Email = ''victim@x.com'', Password = ''overwrite'',
                    Metadata = Some [''plan'' \<mapsto> ''pro'']\<rparr>"

definition plainUpdate :: "string User" where
  "plainUpdate = \<lparr>ID = '''', User.Email = '''', Password = '''',
                   Metadata = Some [''plan'' \<mapsto> ''pro'']\<rparr>"

definition emptyPageState :: "(nat, string) state" where
  "emptyPageState =
     \<lparr>world = 0,
      calls = [Call_Identify ''tok''
                 (Inr \<lparr>UserIdentity.Id = ''u1'', UserIdentity.Email = ''a@x.com''\<rparr>),
               Call_Members \<lparr>Token = ''tok'', GroupID = ''g1'', MembersReq.Offset = 10,
                              MembersReq.Limit = 5, MembersReq.Type = ''users''\<rparr>
                 (Inr (Some []))]\<rparr>"

definition deniedService :: "(nat, string) usersService" where
  "deniedService = stubService\<lparr>auth_Authorize := (\<lambda>req w. (Inr False, w))\<rparr>"

section \<open>Properties of the in-memory PolicyAgent\<close>

lemma range_ssList_success:
  "range_ssList ssList pr = None \<longleftrightarrow>
     \<lparr>MockSubjectSet.Object = PolicyReq.Object pr,
      MockSubjectSet.Relation = PolicyReq.Relation pr\<rparr> \<in> set ssList"
  by (induction ssList) auto

lemma index_map_after_AddPolicy:
  assumes "policyAgentMock_AddPolicy k pr = Some (err, k')"
  shows "index_map (authzDB k') key =
           (if key = Subject pr
            then index_map (authzDB k) key
                   @ [\<lparr>MockSubjectSet.Object = PolicyReq.Object pr,
                        MockSubjectSet.Relation = PolicyReq.Relation pr\<rparr>]
            else index_map (authzDB k) key)"
  using assms
  by (auto simp: policyAgentMock_AddPolicy_def index_map_def split: option.splits)

lemma PolicyReq_eq_iff:
  fixes q pr :: PolicyReq
  shows "q = pr \<longleftrightarrow>
           Subject q = Subject pr \<and> PolicyReq.Object q = PolicyReq.Object pr
             \<and> PolicyReq.Relation q = PolicyReq.Relation pr"
  by (cases q, cases pr) simp

lemma CheckPolicy_after_AddPolicy:
  assumes "policyAgentMock_AddPolicy k pr = Some (err, k')"
  shows "policyAgentMock_CheckPolicy k' q = None \<longleftrightarrow>
           q = pr \<or> policyAgentMock_CheckPolicy k q = None"
  unfolding policyAgentMock_CheckPolicy_def range_ssList_success
    index_map_after_AddPolicy [OF assms] PolicyReq_eq_iff [of q pr]
  by auto

lemma AddPolicy_on_map:
  assumes "authzDB k = Some m"
  shows "\<exists>k' m'. policyAgentMock_AddPolicy k pr = Some (None, k') \<and> authzDB k' = Some m'"
  using assms by (simp add: policyAgentMock_AddPolicy_def)

text \<open>On an agent built on the \<^verbatim>\<open>nil\<close> map, \<^verbatim>\<open>AddPolicy\<close> panics and \<^verbatim>\<open>CheckPolicy\<close> denies.\<close>

lemma nil_map_agent:
  "policyAgentMock_AddPolicy (NewKetoMock None) pr = None"
  "policyAgentMock_CheckPolicy (NewKetoMock None) pr = Some auth_ErrAuthorization"
  by (simp_all add: policyAgentMock_AddPolicy_def policyAgentMock_CheckPolicy_def
        NewKetoMock_def index_map_def)

lemma range_ssList_denial:
  "range_ssList ssList pr \<noteq> None \<Longrightarrow> range_ssList ssList pr = Some auth_ErrAuthorization"
  by (induction ssList) (auto split: if_splits)

lemma AddPolicy_calls_CheckPolicy:
  assumes "authzDB k = Some m"
  shows "\<exists>k'. AddPolicy_calls k prs = Some (replicate (length prs) None, k')
           \<and> (\<forall>q. policyAgentMock_CheckPolicy k' q = None \<longleftrightarrow>
                      q \<in> set prs \<or> policyAgentMock_CheckPolicy k q = None)"
  using assms
proof (induction prs arbitrary: k m)
  case Nil
  then show ?case by simp
next
  case (Cons pr prs)
  from AddPolicy_on_map [OF Cons.prems, of pr]
  obtain k1 m1 where add: "policyAgentMock_AddPolicy k pr = Some (None, k1)"
    and db: "authzDB k1 = Some m1"
    by blast
  from Cons.IH [OF db]
  obtain k' where run: "AddPolicy_calls k1 prs = Some (replicate (length prs) None, k')"
    and chk: "\<And>q. policyAgentMock_CheckPolicy k' q = None \<longleftrightarrow>
                 q \<in> set prs \<or> policyAgentMock_CheckPolicy k1 q = None"
    by blast
  have "AddPolicy_calls k (pr # prs) = Some (replicate (length (pr # prs)) None, k')"
    using add run by simp
  moreover have "\<And>q. policyAgentMock_CheckPolicy k' q = None \<longleftrightarrow>
                 q \<in> set (pr # prs) \<or> policyAgentMock_CheckPolicy k q = None"
    using chk CheckPolicy_after_AddPolicy [OF add] by auto
  ultimately show ?case by blast
qed

text \<open>
  On an agent built on the empty map the tuples for which \<^verbatim>\<open>CheckPolicy\<close> succeeds are
  exactly those that the \<^verbatim>\<open>AddPolicy\<close> calls inserted.
\<close>

lemma emptyMock_CheckPolicy_iff_added:
  "\<exists>k'. AddPolicy_calls emptyMock prs = Some (replicate (length prs) None, k')
         \<and> (\<forall>q. policyAgentMock_CheckPolicy k' q = None \<longleftrightarrow> q \<in> set prs)"
proof -
  have db: "authzDB emptyMock = Some Map.empty"
    by (simp add: emptyMock_def NewKetoMock_def)
  have none: "policyAgentMock_CheckPolicy emptyMock q \<noteq> None" for q
    by (simp add: emptyMock_def NewKetoMock_def policyAgentMock_CheckPolicy_def index_map_def)
  from AddPolicy_calls_CheckPolicy [OF db, of prs] none show ?thesis by simp
qed




section \<open>Properties of the users service\<close>

lemmas service_defs =
  Register_def checkAuthz_def authorize_def identify_def claimOwnership_def members_def
  issue_def Login_def ViewUser_def ViewProfile_def UpdateUser_def ListMembers_def
  extern_def start_def Let_def

subsection \<open>The calls of each operation\<close>

lemma extern_calls:
  "extern ev f s = (r, s') \<Longrightarrow> calls s' = calls s @ [ev r]"
  by (auto simp: extern_def split: prod.splits)

lemma identify_calls:
  "identify svc token s = (res, s') \<Longrightarrow> \<exists>r. calls s' = calls s @ [Call_Identify token r]"
  by (auto simp: identify_def split: prod.splits sum.splits dest!: extern_calls)

lemma authorize_calls:
  "authorize svc subject object relation s = (err, s')
     \<Longrightarrow> \<exists>req r. calls s' = calls s @ [Call_Authorize req r]"
  by (auto simp: authorize_def Let_def split: prod.splits sum.splits if_splits dest!: extern_calls)

lemma claimOwnership_calls:
  "claimOwnership svc subject object relation s = (err, s')
     \<Longrightarrow> \<exists>r. calls s' = calls s @ [Call_AddPolicy \<lparr>AddPolicyReq.Sub = subject,
                  AddPolicyReq.Obj = object, AddPolicyReq.Act = relation\<rparr> r]
              \<and> (err = None \<longleftrightarrow> r = Inr True)"
  by (auto simp: claimOwnership_def Let_def split: prod.splits sum.splits if_splits
      dest!: extern_calls)

lemma checkAuthz_calls:
  "checkAuthz svc token s = (err, s')
     \<Longrightarrow> \<exists>tr. calls s' = calls s @ tr \<and> (\<forall>c \<in> set tr. \<not> is_Save c \<and> \<not> is_AddPolicy c)"
  unfolding checkAuthz_def
  by (auto split: prod.splits option.splits if_splits dest!: authorize_calls identify_calls)

lemma Register_calls:
  assumes "Register svc token user s = ((uid, err), s')"
  shows "\<exists>tr rest. calls s' = calls s @ tr @ rest
           \<and> (\<forall>c \<in> set tr. \<not> is_Save c \<and> \<not> is_AddPolicy c)
           \<and> Register_rest user uid err rest"
proof -
  obtain e1 s1 where gate: "checkAuthz svc token s = (e1, s1)"
    by (cases "checkAuthz svc token s") 
  from checkAuthz_calls [OF gate] obtain tr where
    tr: "calls s1 = calls s @ tr" "\<forall>c \<in> set tr. \<not> is_Save c \<and> \<not> is_AddPolicy c"
    by blast
  have "\<exists>rest. calls s' = calls s1 @ rest \<and> Register_rest user uid err rest"
    using assms gate unfolding Register_def Let_def ownership_def Register_rest_def
    by (auto split: prod.splits option.splits sum.splits if_splits
          dest!: extern_calls claimOwnership_calls) metis+
  then show ?thesis using tr by auto
qed

lemma Save_position:
  assumes "pre @ Call_Save u r # post = front @ [Call_Save u' r']"
    and "\<forall>c \<in> set front. \<not> is_Save c"
  shows "pre = front \<and> u = u' \<and> r = r' \<and> post = []"
  using assms
proof (induction pre arbitrary: front)
  case Nil
  then show ?case by (cases front) auto
next
  case (Cons a pre)
  then show ?case by (cases front) auto
qed

subsection \<open>Registration\<close>

text \<open>
  Claim C1. Take any run of \<^verbatim>\<open>Register\<close>. If it contains a call of \<^verbatim>\<open>AddPolicy\<close> after
  which \<^verbatim>\<open>claimOwnership\<close> returns an error, then \<^verbatim>\<open>Register\<close> returns an error (and
  the empty id) and the run contains no call of the repository's \<^verbatim>\<open>Save\<close>. And
  wherever a run does call \<^verbatim>\<open>Save\<close>, a call of \<^verbatim>\<open>AddPolicy\<close> that granted the saved
  user's id the relation \<^verbatim>\<open>member\<close> on \<^verbatim>\<open>users\<close> comes before it.
\<close>

theorem Register_grant_precedes_Save:
  assumes "Register svc token user (start w) = ((uid, err), s')"
  shows "((\<exists>c \<in> set (calls s'). grantRefused c) \<longrightarrow>
            err \<noteq> None \<and> uid = '''' \<and> (\<forall>c \<in> set (calls s'). \<not> is_Save c))
       \<and> (\<forall>pre u r post. calls s' = pre @ Call_Save u r # post \<longrightarrow>
            (\<exists>c \<in> set pre. granted (ID u) c))"
proof -
  from Register_calls [OF assms] obtain tr rest where
    shape: "calls s' = tr @ rest"
      and gate: "\<forall>c \<in> set tr. \<not> is_Save c \<and> \<not> is_AddPolicy c"
      and rest: "Register_rest user uid err rest"
    by (auto simp: start_def)
  have gate_refused: "\<not> grantRefused c" if "c \<in> set tr" for c
    using gate that by (cases c) auto
  have refused: "(\<exists>c \<in> set (calls s'). grantRefused c) \<longrightarrow>
            err \<noteq> None \<and> uid = '''' \<and> (\<forall>c \<in> set (calls s'). \<not> is_Save c)"
    using rest gate gate_refused unfolding shape Register_rest_def by auto
  have order: "\<exists>c \<in> set pre. granted (ID u) c"
    if split: "calls s' = pre @ Call_Save u r # post" for pre u r post
  proof -
    have "Call_Save u r \<in> set (tr @ rest)"
      using split shape by (metis in_set_conv_decomp)
    then have "Call_Save u r \<in> set rest"
      using gate by auto
    with rest obtain i h where
      r5: "rest = [Call_ID (Inr i), Call_AddPolicy (ownership i) (Inr True),
                    Call_Hash (Password user) (Inr h),
                    Call_Save (user\<lparr>ID := i, Password := h\<rparr>) r]"
      and u: "u = user\<lparr>ID := i, Password := h\<rparr>"
      unfolding Register_rest_def by auto
    let ?front = "tr @ [Call_ID (Inr i), Call_AddPolicy (ownership i) (Inr True),
                    Call_Hash (Password user) (Inr h)]"
    have "pre @ Call_Save u r # post = ?front @ [Call_Save u r]"
      using split shape r5 u by simp
    moreover have "\<forall>c \<in> set ?front. \<not> is_Save c"
      using gate by auto
    ultimately have "pre = ?front"
      using Save_position by blast
    then show ?thesis using u by (auto simp: ownership_def)
  qed
  show ?thesis using refused order by blast
qed

text \<open>
  Two runs: one in which the identity service refuses the grant, one in which it grants
  and the user is saved.
\<close>

theorem Register_grant_precedes_Save_witness:
  "Register refusingService '''' registrant (start 0) = (('''', Some ErrAuthorization), refusedState)
   \<and> list_ex grantRefused (calls refusedState)
   \<and> \<not> list_ex is_Save (calls refusedState)
   \<and> Register stubService '''' registrant (start 0) = ((''id-1'', None), registeredState)
   \<and> list_ex (granted (ID savedUser)) grantedCalls"
proof -
  have refused: "Register refusingService '''' registrant (start 0)
                   = (('''', Some ErrAuthorization), refusedState)"
    by (simp add: service_defs refusingService_def stubService_def registrant_def
          refusedState_def ownership_def usersObjKey_def memberRelationKey_def)
  have registered: "Register stubService '''' registrant (start 0)
                      = ((''id-1'', None), registeredState)"
    by (simp add: service_defs stubService_def registrant_def registeredState_def
          grantedCalls_def savedUser_def ownership_def usersObjKey_def memberRelationKey_def)
  have event: "\<exists>c \<in> set (calls refusedState). grantRefused c"
    by (simp add: refusedState_def)
  have "\<forall>c \<in> set (calls refusedState). \<not> is_Save c"
    using Register_grant_precedes_Save [OF refused] event by blast
  moreover have "calls registeredState = grantedCalls @ Call_Save savedUser (Inr ''id-1'') # []"
    by (simp add: registeredState_def)
  then have "\<exists>c \<in> set grantedCalls. granted (ID savedUser) c"
    using Register_grant_precedes_Save [OF registered] by blast
  ultimately show ?thesis
    using refused registered event by (simp add: list_ex_iff)
qed

subsection \<open>Error kinds\<close>

lemma kind_Wrap: "sameKind (Wrap wrapper err) wrapper"
  by (simp add: sameKind_def Wrap_def)

subsection \<open>Login\<close>

lemma Login_lookup_failure:
  assumes "users_RetrieveByEmail svc (User.Email user) (world s) = (Inl e, w1)"
  shows "fst (Login svc user s) = ('''', Some (Wrap ErrUnauthorizedAccess e))"
  using assms by (simp add: Login_def extern_def)

lemma Login_compare_failure:
  assumes "users_RetrieveByEmail svc (User.Email user) (world s) = (Inr dbUser, w1)"
    and "hasher_Compare svc (Password user) (Password dbUser) w1 = (Some e, w2)"
  shows "fst (Login svc user s) = ('''', Some (Wrap ErrUnauthorizedAccess e))"
  using assms by (simp add: Login_def extern_def)

text \<open>
  Claim C5. A \<^verbatim>\<open>Login\<close> whose lookup by email fails and a \<^verbatim>\<open>Login\<close> (of any user, on any
  service and state) whose lookup succeeds but whose hash comparison fails both return the
  empty token with an error of the kind of \<^verbatim>\<open>ErrUnauthorizedAccess\<close>: the two errors are of
  the same kind.
\<close>

theorem Login_failures_same_kind:
  assumes absent: "users_RetrieveByEmail svc (User.Email user1) (world s1) = (Inl e1, w1)"
    and present: "users_RetrieveByEmail svc' (User.Email user2) (world s2) = (Inr dbUser, w2)"
    and mismatch: "hasher_Compare svc' (Password user2) (Password dbUser) w2 = (Some e2, w3)"
  shows "\<exists>err1 err2. fst (Login svc user1 s1) = ('''', Some err1)
            \<and> fst (Login svc' user2 s2) = ('''', Some err2)
            \<and> sameKind err1 ErrUnauthorizedAccess
            \<and> sameKind err2 ErrUnauthorizedAccess
            \<and> sameKind err1 err2"
proof -
  have "fst (Login svc user1 s1) = ('''', Some (Wrap ErrUnauthorizedAccess e1))"
    by (rule Login_lookup_failure [OF absent])
  moreover have "fst (Login svc' user2 s2) = ('''', Some (Wrap ErrUnauthorizedAccess e2))"
    by (rule Login_compare_failure [OF present mismatch])
  moreover have "sameKind (Wrap ErrUnauthorizedAccess e1) (Wrap ErrUnauthorizedAccess e2)"
    by (simp add: sameKind_def Wrap_def)
  ultimately show ?thesis
    using kind_Wrap by blast
qed

text \<open>An unknown email and a wrong password for a known one; the right password logs in.\<close>

theorem Login_failures_same_kind_witness:
  "fst (Login stubService unknownLogin (start 0))
     = ('''', Some (Wrap ErrUnauthorizedAccess ErrNotFound))
   \<and> fst (Login stubService wrongPasswordLogin (start 0))
     = ('''', Some (Wrap ErrUnauthorizedAccess (New ''hash mismatch'')))
   \<and> sameKind (Wrap ErrUnauthorizedAccess ErrNotFound)
        (Wrap ErrUnauthorizedAccess (New ''hash mismatch''))
   \<and> fst (Login stubService correctLogin (start 0))
     = (''token-of-u1'', None)"
proof -
  have absent: "users_RetrieveByEmail stubService (User.Email unknownLogin)
                  (world (start 0 :: (nat, string) state)) = (Inl ErrNotFound, 0)"
    by (simp add: stubService_def unknownLogin_def start_def)
  have present: "users_RetrieveByEmail stubService (User.Email wrongPasswordLogin)
                  (world (start 0 :: (nat, string) state)) = (Inr storedUser, 0)"
    by (simp add: stubService_def wrongPasswordLogin_def start_def)
  have mismatch: "hasher_Compare stubService (Password wrongPasswordLogin) (Password storedUser) 0
                    = (Some (New ''hash mismatch''), 0)"
    by (simp add: stubService_def wrongPasswordLogin_def storedUser_def)
  from Login_failures_same_kind [OF absent present mismatch]
  obtain err1 err2 where
    "fst (Login stubService unknownLogin (start 0)) = ('''', Some err1)"
    "fst (Login stubService wrongPasswordLogin (start 0)) = ('''', Some err2)"
    "sameKind err1 err2"
    by blast
  moreover have "fst (Login stubService unknownLogin (start 0))
     = ('''', Some (Wrap ErrUnauthorizedAccess ErrNotFound))"
    by (simp add: service_defs stubService_def unknownLogin_def)
  moreover have "fst (Login stubService wrongPasswordLogin (start 0))
     = ('''', Some (Wrap ErrUnauthorizedAccess (New ''hash mismatch'')))"
    by (simp add: service_defs stubService_def wrongPasswordLogin_def storedUser_def)
  moreover have "fst (Login stubService correctLogin (start 0))
     = (''token-of-u1'', None)"
    by (simp add: service_defs stubService_def correctLogin_def storedUser_def)
  ultimately show ?thesis by simp
qed

subsection \<open>Viewing a user\<close>

text \<open>
  Claim C6. The user that a successful \<^verbatim>\<open>ViewUser\<close> or \<^verbatim>\<open>ViewProfile\<close> returns has the
  empty password, whatever the repository stores.
\<close>

theorem View_password_empty:
  "(ViewUser svc token uid s = ((u, None), s') \<longrightarrow> Password u = '''')
   \<and> (ViewProfile svc token s = ((p, None), s'') \<longrightarrow> Password p = '''')"
  by (auto simp: ViewUser_def ViewProfile_def split: prod.splits option.splits sum.splits)

text \<open>The stored user has a password hash; both views return it without.\<close>

theorem View_password_empty_witness:
  "ViewUser stubService ''tok'' ''u1'' (start 0)
     = ((storedUser\<lparr>Password := ''''\<rparr>, None), viewedState)
   \<and> ViewProfile stubService ''tok'' (start 0)
     = ((storedUser\<lparr>Password := ''''\<rparr>, None), profileState)
   \<and> Password storedUser = ''#Str0ng!pw''
   \<and> Password (storedUser\<lparr>Password := ''''\<rparr>) = ''''"
proof -
  have v: "ViewUser stubService ''tok'' ''u1'' (start 0)
             = ((storedUser\<lparr>Password := ''''\<rparr>, None), viewedState)"
    by (simp add: service_defs stubService_def storedUser_def viewedState_def)
  have p: "ViewProfile stubService ''tok'' (start 0)
             = ((storedUser\<lparr>Password := ''''\<rparr>, None), profileState)"
    by (simp add: service_defs stubService_def storedUser_def profileState_def)
  from View_password_empty [of stubService "''tok''" "''u1''" "start 0"
      "storedUser\<lparr>Password := ''''\<rparr>" viewedState "storedUser\<lparr>Password := ''''\<rparr>" profileState]
  have "Password (storedUser\<lparr>Password := ''''\<rparr>) = ''''"
    using v p by blast
  then show ?thesis using v p by (simp add: storedUser_def)
qed

text \<open>
  Claim C10. When the token is valid and the repository's lookup by id fails,
  \<^verbatim>\<open>ViewUser\<close> returns the zero \<^verbatim>\<open>User\<close> and an error of the kind of
  \<^verbatim>\<open>ErrUnauthorizedAccess\<close>, not of \<^verbatim>\<open>ErrNotFound\<close> or \<^verbatim>\<open>ErrUserNotFound\<close>; the
  repository's error is its cause.
\<close>

theorem ViewUser_lookup_failure_Unauthorized:
  assumes valid: "auth_Identify svc token (world s) = (Inr identity, w1)"
    and lookup: "users_RetrieveByID svc uid w1 = (Inl e, w2)"
  shows "\<exists>err. fst (ViewUser svc token uid s) = (User_zero, Some err)
           \<and> sameKind err ErrUnauthorizedAccess
           \<and> \<not> sameKind err ErrNotFound
           \<and> \<not> sameKind err ErrUserNotFound
           \<and> Err err = Some e"
proof -
  have "fst (ViewUser svc token uid s) = (User_zero, Some (Wrap ErrUnauthorizedAccess e))"
    using valid lookup by (simp add: ViewUser_def identify_def extern_def)
  moreover have "sameKind (Wrap ErrUnauthorizedAccess e) ErrUnauthorizedAccess"
    by (rule kind_Wrap)
  moreover have "\<not> sameKind (Wrap ErrUnauthorizedAccess e) ErrNotFound"
    by (simp add: sameKind_def Wrap_def ErrUnauthorizedAccess_def ErrNotFound_def New_def)
  moreover have "\<not> sameKind (Wrap ErrUnauthorizedAccess e) ErrUserNotFound"
    by (simp add: sameKind_def Wrap_def ErrUnauthorizedAccess_def ErrUserNotFound_def New_def)
  moreover have "Err (Wrap ErrUnauthorizedAccess e) = Some e"
    by (simp add: Wrap_def)
  ultimately show ?thesis by blast
qed

text \<open>A valid token and an id the repository does not know.\<close>

theorem ViewUser_lookup_failure_Unauthorized_witness:
  "auth_Identify stubService ''tok'' (world (start 0 :: (nat, string) state))
     = (Inr \<lparr>UserIdentity.Id = ''u1'', UserIdentity.Email = ''a@x.com''\<rparr>, 0)
   \<and> users_RetrieveByID stubService ''nobody'' 0 = (Inl ErrNotFound, 0)
   \<and> fst (ViewUser stubService ''tok'' ''nobody'' (start 0))
        = (User_zero, Some (Wrap ErrUnauthorizedAccess ErrNotFound))"
proof -
  have valid: "auth_Identify stubService ''tok'' (world (start 0 :: (nat, string) state))
     = (Inr \<lparr>UserIdentity.Id = ''u1'', UserIdentity.Email = ''a@x.com''\<rparr>, 0)"
    by (simp add: stubService_def start_def)
  have lookup: "users_RetrieveByID stubService ''nobody'' 0 = (Inl ErrNotFound, 0)"
    by (simp add: stubService_def)
  from ViewUser_lookup_failure_Unauthorized [OF valid lookup]
  obtain err where r: "fst (ViewUser stubService ''tok'' ''nobody'' (start 0)) = (User_zero, Some err)"
    and k: "sameKind err ErrUnauthorizedAccess" and c: "Err err = Some ErrNotFound"
    by blast
  have "err = Wrap ErrUnauthorizedAccess ErrNotFound"
    using k c by (cases err) (simp add: sameKind_def Wrap_def)
  then show ?thesis using valid lookup r by simp
qed

subsection \<open>Updating a user\<close>



subsection \<open>Listing the members of a group\<close>

text \<open>
  \<^verbatim>\<open>ListMembers\<close> calls \<^verbatim>\<open>members(ctx, token, groupID, offset, limit)\<close>, whose parameters
  are \<^verbatim>\<open>limit, offset\<close> in that order: for every valid token the request carries the
  caller's limit as \<^verbatim>\<open>Offset\<close> and the caller's offset as \<^verbatim>\<open>Limit\<close>.
\<close>

lemma ListMembers_request:
  assumes "auth_Identify svc token (world s) = (Inr identity, w1)"
  shows "\<exists>r. take 2 (drop (length (calls s)) (calls (snd (ListMembers svc token groupID offset limit m s))))
           = [Call_Identify token (Inr identity),
              Call_Members \<lparr>Token = token, GroupID = groupID, MembersReq.Offset = limit,
                             MembersReq.Limit = offset, MembersReq.Type = ''users''\<rparr> r]"
  using assms
  by (auto simp: ListMembers_def identify_def members_def extern_def Let_def
        split: prod.splits option.splits sum.splits)

text \<open>
  Claim C2 does not hold of the source. \<^verbatim>\<open>ListMembers\<close> with offset 5 and limit 10 sends
  the identity service a request with \<^verbatim>\<open>Offset\<close> 10 and \<^verbatim>\<open>Limit\<close> 5.
\<close>

theorem ListMembers_request_bounds_swapped:
  "calls (snd (ListMembers stubService ''tok'' ''g1'' 5 10 None (start 0)))
     = [Call_Identify ''tok''
          (Inr \<lparr>UserIdentity.Id = ''u1'', UserIdentity.Email = ''a@x.com''\<rparr>),
        Call_Members \<lparr>Token = ''tok'', GroupID = ''g1'', MembersReq.Offset = 10,
                       MembersReq.Limit = 5, MembersReq.Type = ''users''\<rparr>
          (Inr (Some []))]"
  by (simp add: service_defs stubService_def len_def)

text \<open>
  Claim C8. In a run of \<^verbatim>\<open>ListMembers\<close> in which the identity service answers the
  member query with a list of length 0 (\<^verbatim>\<open>nil\<close> or empty), the result is no error and the
  page with the caller's offset and limit, total 0 and the empty, non-\<^verbatim>\<open>nil\<close> sequence of
  users; and the identity service resolved the token in that run.
\<close>

theorem ListMembers_empty_page:
  assumes run: "ListMembers svc token groupID offset limit m (start w) = ((page, err), s')"
    and reply: "Call_Members req (Inr ids) \<in> set (calls s')"
    and empty: "len ids = 0"
  shows "err = None
       \<and> page = \<lparr>Total = 0, PageMetadata.Offset = offset, PageMetadata.Limit = limit,
                   Name = '''', Users = Some []\<rparr>
       \<and> (\<exists>identity. Call_Identify token (Inr identity) \<in> set (calls s'))"
  using assms
  by (auto simp: ListMembers_def identify_def members_def extern_def start_def Let_def
        split: prod.splits option.splits sum.splits if_splits)

text \<open>A valid token and a group without members.\<close>

theorem ListMembers_empty_page_witness:
  "ListMembers stubService ''tok'' ''g1'' 5 10 None (start 0)
     = ((\<lparr>Total = 0, PageMetadata.Offset = 5, PageMetadata.Limit = 10, Name = '''',
          Users = Some []\<rparr>, None), emptyPageState)
   \<and> len (Some [] :: string slice) = 0"
proof -
  obtain page err s' where
    run: "ListMembers stubService ''tok'' ''g1'' 5 10 None (start 0) = ((page, err), s')"
    by (metis surj_pair)
  have s': "s' = emptyPageState"
    using run by (simp add: service_defs stubService_def emptyPageState_def len_def)
  have reply: "Call_Members \<lparr>Token = ''tok'', GroupID = ''g1'', MembersReq.Offset = 10,
                              MembersReq.Limit = 5, MembersReq.Type = ''users''\<rparr>
                 (Inr (Some [])) \<in> set (calls s')"
    unfolding s' by (simp add: emptyPageState_def)
  have empty: "len (Some [] :: string slice) = 0"
    by (simp add: len_def)
  from ListMembers_empty_page [OF run reply empty] run s' empty
  show ?thesis by simp
qed

subsection \<open>The authorization gate of registration\<close>

lemma authorize_error_kind:
  "authorize svc subject object relation s = (Some e, s') \<Longrightarrow> sameKind e ErrAuthorization"
  by (auto simp: authorize_def Let_def sameKind_def Wrap_def
        split: prod.splits sum.splits if_splits)

lemma identify_error_kind:
  "identify svc token s = ((ir, Some e), s') \<Longrightarrow> sameKind e ErrUnauthorizedAccess"
  by (auto simp: identify_def sameKind_def Wrap_def split: prod.splits sum.splits)

text \<open>
  Claim C3, as amended. When the wildcard check \<^verbatim>\<open>("*", "user", "create")\<close> fails, and the
  token is empty, or does not resolve to an identity, or resolves to one for which the
  check of \<^verbatim>\<open>member\<close> on \<^verbatim>\<open>authorities\<close> fails, then \<^verbatim>\<open>Register\<close> returns the empty id
  and an error: of the kind of \<^verbatim>\<open>ErrUnauthorizedAccess\<close> when the token is empty or does
  not resolve, of the kind of \<^verbatim>\<open>ErrAuthorization\<close> when the identity is not a member.
\<close>

theorem Register_gate_failure_kinds:
  assumes wildcard: "authorize svc ''*'' ''user'' ''create'' s = (Some e0, s1)"
    and resolve: "identify svc token s1 = ((ir, unresolved), s2)"
    and member: "authorize svc (id' ir) authoritiesObjKey memberRelationKey s2 = (denied, s3)"
    and neither: "token = '''' \<or> unresolved \<noteq> None \<or> denied \<noteq> None"
  shows "\<exists>e. fst (Register svc token user s) = ('''', Some e)
           \<and> (if token = '''' \<or> unresolved \<noteq> None
               then sameKind e ErrUnauthorizedAccess
               else sameKind e ErrAuthorization)"
proof (cases "token = ''''")
  case True
  then have "fst (Register svc token user s) = ('''', Some ErrUnauthorizedAccess)"
    using wildcard by (simp add: Register_def checkAuthz_def)
  then show ?thesis using True by (simp add: sameKind_def)
next
  case False
  show ?thesis
  proof (cases unresolved)
    case (Some e)
    then have "fst (Register svc token user s) = ('''', Some e)"
      using wildcard resolve False by (simp add: Register_def checkAuthz_def)
    moreover have "sameKind e ErrUnauthorizedAccess"
      using resolve Some identify_error_kind by blast
    ultimately show ?thesis using Some by simp
  next
    case None
    with neither False obtain e where e: "denied = Some e" by auto
    then have "fst (Register svc token user s) = ('''', Some e)"
      using wildcard resolve member False None by (simp add: Register_def checkAuthz_def)
    moreover have "sameKind e ErrAuthorization"
      using member e authorize_error_kind by blast
    ultimately show ?thesis using None False by simp
  qed
qed

text \<open>
  Claim C3 as stated fails: both checks are refused, the token resolves, and the error of
  \<^verbatim>\<open>Register\<close> is \<^verbatim>\<open>ErrAuthorization\<close>, which is not of the kind of
  \<^verbatim>\<open>ErrUnauthorizedAccess\<close>.
\<close>

theorem Register_not_member_counterexample:
  "fst (authorize deniedService ''*'' ''user'' ''create'' (start 0)) = Some ErrAuthorization
   \<and> fst (fst (identify deniedService ''tok'' (start 0))) = \<lparr>id' = ''u1'', email = ''a@x.com''\<rparr>
   \<and> fst (authorize deniedService ''u1'' authoritiesObjKey memberRelationKey (start 0))
        = Some ErrAuthorization
   \<and> fst (Register deniedService ''tok'' registrant (start 0)) = ('''', Some ErrAuthorization)
   \<and> \<not> sameKind ErrAuthorization ErrUnauthorizedAccess"
  by (simp add: service_defs deniedService_def stubService_def sameKind_def
        ErrAuthorization_def ErrUnauthorizedAccess_def New_def)

text \<open>No bootstrap policy: a valid token of a non-member, and a token that does not resolve.\<close>

theorem Register_gate_failure_kinds_witness:
  "fst (authorize deniedService ''*'' ''user'' ''create'' (start 0)) = Some ErrAuthorization
   \<and> fst (Register deniedService ''tok'' registrant (start 0)) = ('''', Some ErrAuthorization)
   \<and> sameKind ErrAuthorization ErrAuthorization
   \<and> fst (Register deniedService ''expired'' registrant (start 0))
        = ('''', Some (Wrap ErrUnauthorizedAccess (New ''invalid token'')))
   \<and> sameKind (Wrap ErrUnauthorizedAccess (New ''invalid token'')) ErrUnauthorizedAccess"
proof -
  define s1 :: "(nat, string) state"
    where "s1 = snd (authorize deniedService ''*'' ''user'' ''create'' (start 0))"
  define s2 where "s2 = snd (identify deniedService ''tok'' s1)"
  define x2 where "x2 = snd (identify deniedService ''expired'' s1)"
  have wildcard: "authorize deniedService ''*'' ''user'' ''create'' (start 0)
                    = (Some ErrAuthorization, s1)"
    unfolding s1_def by (simp add: service_defs deniedService_def stubService_def)
  have resolve: "identify deniedService ''tok'' s1
                   = ((\<lparr>id' = ''u1'', email = ''a@x.com''\<rparr>, None), s2)"
    unfolding s2_def by (simp add: service_defs deniedService_def stubService_def)
  have member: "authorize deniedService (id' \<lparr>id' = ''u1'', email = ''a@x.com''\<rparr>)
                   authoritiesObjKey memberRelationKey s2
                   = (Some ErrAuthorization,
                      snd (authorize deniedService (id' \<lparr>id' = ''u1'', email = ''a@x.com''\<rparr>)
                             authoritiesObjKey memberRelationKey s2))"
    by (simp add: service_defs deniedService_def stubService_def)
  have neither: "''tok'' = '''' \<or> (None :: error option) \<noteq> None \<or> Some ErrAuthorization \<noteq> None"
    by simp
  from Register_gate_failure_kinds [OF wildcard resolve member neither, of registrant]
  obtain e where e: "fst (Register deniedService ''tok'' registrant (start 0)) = ('''', Some e)"
    "sameKind e ErrAuthorization"
    by auto
  have invalid: "identify deniedService ''expired'' s1
                   = ((userIdentity_zero, Some (Wrap ErrUnauthorizedAccess (New ''invalid token''))), x2)"
    unfolding x2_def by (simp add: service_defs deniedService_def stubService_def)
  have member': "authorize deniedService (id' userIdentity_zero)
                   authoritiesObjKey memberRelationKey x2
                   = (Some ErrAuthorization,
                      snd (authorize deniedService (id' userIdentity_zero)
                             authoritiesObjKey memberRelationKey x2))"
    by (simp add: service_defs deniedService_def stubService_def)
  have neither': "''expired'' = '''' \<or> Some (Wrap ErrUnauthorizedAccess (New ''invalid token'')) \<noteq> None
                   \<or> Some ErrAuthorization \<noteq> None"
    by simp
  from Register_gate_failure_kinds [OF wildcard invalid member' neither', of registrant]
  obtain e' where e': "fst (Register deniedService ''expired'' registrant (start 0)) = ('''', Some e')"
    "sameKind e' ErrUnauthorizedAccess"
    by auto
  have r1: "fst (Register deniedService ''tok'' registrant (start 0)) = ('''', Some ErrAuthorization)"
    by (simp add: service_defs deniedService_def stubService_def)
  have r2: "fst (Register deniedService ''expired'' registrant (start 0))
        = ('''', Some (Wrap ErrUnauthorizedAccess (New ''invalid token'')))"
    by (simp add: service_defs deniedService_def stubService_def)
  show ?thesis using wildcard e e' r1 r2 by simp
qed

section \<open>Properties of AddPolicy on the two backends\<close>




end
